theory Spec2Isabelle
  imports Complex_Main
begin

section \<open>Python values, exceptions and time\<close>

text \<open>
  The values that \<^verbatim>\<open>json.load\<close> and the extraction functions hand to the
  application: \<^verbatim>\<open>None\<close>, booleans, numbers, strings, lists and dictionaries
  with string keys.  A dictionary is an association list in insertion order; its keys are
  distinct in every value Python builds.
\<close>

datatype pyval =
    PNone
  | PBool bool
  | PInt int
  | PFloat rat
  | PStr string
  | PList "pyval list"
  | PDict "(string \<times> pyval) list"

text \<open>
  Exceptions.  \<open>HTTPException\<close> carries its status code and its detail.  The handlers
  of \<^verbatim>\<open>main.py\<close> build the detail \<^verbatim>\<open>f"Internal server error: {str(e)}"\<close>
  from the exception they caught: that text is kept as \<open>Internal_server_error e\<close>.
  \<open>Exception\<close> is any other exception derived from Python's \<^verbatim>\<open>Exception\<close>
  class, with its message.
\<close>

datatype exn =
    HTTPException nat detail
  | TypeError
  | AttributeError
  | ValidationError
  | ScheduleValueError
  | Exception string
and detail =
    Detail string
  | Internal_server_error exn

text \<open>
  A \<^verbatim>\<open>datetime\<close> is a number of microseconds on the local clock; a
  \<^verbatim>\<open>timedelta\<close> is a number of microseconds.  A timestamp string produced by
  \<^verbatim>\<open>isoformat()\<close> or \<^verbatim>\<open>strftime\<close> is represented by the instant it
  renders.
\<close>

type_synonym datetime = int
type_synonym timedelta = int

definition seconds :: "int \<Rightarrow> timedelta" where
  "seconds n = n * 1000000"

definition days :: "int \<Rightarrow> timedelta" where
  "days n = n * 86400000000"

text \<open>Python's \<^verbatim>\<open>d[k] = v\<close> on a dictionary in insertion order.\<close>

fun dict_set :: "('k \<times> 'v) list \<Rightarrow> 'k \<Rightarrow> 'v \<Rightarrow> ('k \<times> 'v) list" where
  "dict_set [] k v = [(k, v)]"
| "dict_set ((k', v') # kvs) k v =
     (if k' = k then (k', v) # kvs else (k', v') # dict_set kvs k v)"

text \<open>Decimal rendering of a non-negative integer inside an f-string.\<close>

fun show_nat :: "nat \<Rightarrow> string" where
  "show_nat n =
     (if n < 10 then [''0123456789'' ! n]
      else show_nat (n div 10) @ [''0123456789'' ! (n mod 10)])"

declare show_nat.simps [simp del]

section \<open>scheduler.py: the scraping jobs\<close>

text \<open>
  The five extraction functions are imported from modules outside the repository's
  sources.  What a call returns (a value, \<open>PNone\<close> for Python's \<^verbatim>\<open>None\<close>, or a raised
  exception) and how long it takes are given by an environment.
\<close>

datatype scraper =
    extract_mygap_tbm_data
  | extract_mygap_pf_data
  | extract_mygap_am_data
  | extract_mygap_organic_data
  | extract_mygap_tanaman_data

record outcome =
  returned :: "exn + pyval"
  took :: timedelta

type_synonym env = "scraper \<Rightarrow> outcome"

text \<open>
  What a run does to the outside: calls of extraction functions (with the value of
  \<^verbatim>\<open>save_to_file\<close>), calls of \<^verbatim>\<open>time.sleep\<close> and starts of background
  threads (with the scraper name the thread is given), in order, and the clock they
  advance.
\<close>

datatype event =
    Call scraper bool
  | Sleep timedelta
  | Thread_start string

record world =
  clock :: datetime
  trace :: "event list"

definition call_scraper :: "env \<Rightarrow> scraper \<Rightarrow> bool \<Rightarrow> world \<Rightarrow> (exn + pyval) \<times> world" where
  "call_scraper E f save w =
     (returned (E f),
      w\<lparr>clock := clock w + took (E f), trace := trace w @ [Call f save]\<rparr>)"

definition sleep :: "timedelta \<Rightarrow> world \<Rightarrow> world" where
  "sleep d w = w\<lparr>clock := clock w + d, trace := trace w @ [Sleep d]\<rparr>"

text \<open>\<^verbatim>\<open>ScrapingScheduler.__init__\<close>: the registry, in the order the dictionary is written.\<close>

definition scraping_functions :: "(string \<times> scraper) list" where
  "scraping_functions =
     [(''TBM'', extract_mygap_tbm_data),
      (''PF'', extract_mygap_pf_data),
      (''AM'', extract_mygap_am_data),
      (''Organic'', extract_mygap_organic_data),
      (''Tanaman'', extract_mygap_tanaman_data)]"

text \<open>
  \<^verbatim>\<open>run_scraping_job\<close>: the call runs inside \<^verbatim>\<open>try\<close>; an exception gives
  \<open>False\<close>, a returned \<^verbatim>\<open>None\<close> gives \<open>False\<close>, anything else \<open>True\<close>.
\<close>

definition run_scraping_job :: "env \<Rightarrow> string \<Rightarrow> scraper \<Rightarrow> world \<Rightarrow> bool \<times> world" where
  "run_scraping_job E scraper_name scraper_func w =
     (case call_scraper E scraper_func True w of
        (Inl e, w') \<Rightarrow> (False, w')
      | (Inr data, w') \<Rightarrow> (if data \<noteq> PNone then (True, w') else (False, w')))"

text \<open>
  The loop of \<^verbatim>\<open>run_all_scrapers\<close> over \<^verbatim>\<open>scraping_functions.items()\<close>: run the
  job, store its success under the name, sleep two seconds.
\<close>

fun run_all_loop ::
  "env \<Rightarrow> (string \<times> scraper) list \<Rightarrow> (string \<times> bool) list \<Rightarrow> world
     \<Rightarrow> (string \<times> bool) list \<times> world" where
  "run_all_loop E [] results w = (results, w)"
| "run_all_loop E ((scraper_name, scraper_func) # rest) results w =
     (case run_scraping_job E scraper_name scraper_func w of
        (success, w1) \<Rightarrow>
          run_all_loop E rest (dict_set results scraper_name success) (sleep (seconds 2) w1))"

text \<open>What \<^verbatim>\<open>run_all_scrapers\<close> computes and logs as its summary.\<close>

record summary =
  results :: "(string \<times> bool) list"
  total_duration :: timedelta
  successful_scrapers :: "string list"
  failed_scrapers :: "string list"

definition run_all_scrapers :: "env \<Rightarrow> world \<Rightarrow> summary \<times> world" where
  "run_all_scrapers E w =
     (let overall_start_time = clock w in
      case run_all_loop E scraping_functions [] w of
        (res, w') \<Rightarrow>
          (let overall_end_time = clock w' in
           (\<lparr>results = res,
             total_duration = overall_end_time - overall_start_time,
             successful_scrapers = map fst (filter snd res),
             failed_scrapers = map fst (filter (\<lambda>(name, success). \<not> success) res)\<rparr>,
            w')))"

text \<open>\<^verbatim>\<open>run_single_scraper\<close>: an unknown name returns \<open>False\<close> before any job runs.\<close>

definition run_single_scraper :: "env \<Rightarrow> string \<Rightarrow> world \<Rightarrow> bool \<times> world" where
  "run_single_scraper E scraper_name w =
     (case map_of scraping_functions scraper_name of
        None \<Rightarrow> (False, w)
      | Some scraper_func \<Rightarrow> run_scraping_job E scraper_name scraper_func w)"

text \<open>Whether a call of an extraction function counts as a success for the job.\<close>

definition succeeded :: "outcome \<Rightarrow> bool" where
  "succeeded out = (case returned out of Inl e \<Rightarrow> False | Inr data \<Rightarrow> data \<noteq> PNone)"

section \<open>scheduler.py: starting, stopping and the status\<close>

text \<open>
  The \<^verbatim>\<open>schedule\<close> package is a third-party library.  Its job registry is the
  list \<open>jobs\<close>; a job made by \<^verbatim>\<open>every().day.at(time_str)\<close> keeps its time of day
  and its next run.  \<^verbatim>\<open>at\<close> accepts \<^verbatim>\<open>HH:MM\<close> and \<^verbatim>\<open>HH:MM:SS\<close> with
  an hour up to 23 and raises \<^verbatim>\<open>ScheduleValueError\<close> otherwise.
\<close>

definition digit :: "char \<Rightarrow> nat option" where
  "digit c =
     (if of_char c \<ge> (48::nat) \<and> of_char c \<le> (57::nat) then Some (of_char c - 48) else None)"

definition two_digits :: "char \<Rightarrow> char \<Rightarrow> nat \<Rightarrow> nat option" where
  "two_digits a b first_max =
     (case (digit a, digit b) of
        (Some x, Some y) \<Rightarrow> (if x \<le> first_max then Some (10 * x + y) else None)
      | _ \<Rightarrow> None)"

definition time_of_day :: "nat option \<Rightarrow> nat option \<Rightarrow> nat option \<Rightarrow> exn + timedelta" where
  "time_of_day hh mm ss =
     (case (hh, mm, ss) of
        (Some h, Some m, Some s) \<Rightarrow>
          (if h \<le> 23 then Inr (seconds (int (3600 * h + 60 * m + s)))
           else Inl ScheduleValueError)
      | _ \<Rightarrow> Inl ScheduleValueError)"

fun parse_at :: "string \<Rightarrow> exn + timedelta" where
  "parse_at [h1, h2, c1, m1, m2] =
     (if c1 = CHR '':'' then time_of_day (two_digits h1 h2 2) (two_digits m1 m2 5) (Some 0)
      else Inl ScheduleValueError)"
| "parse_at [h1, h2, c1, m1, m2, c2, s1, s2] =
     (if c1 = CHR '':'' \<and> c2 = CHR '':''
      then time_of_day (two_digits h1 h2 2) (two_digits m1 m2 5) (two_digits s1 s2 5)
      else Inl ScheduleValueError)"
| "parse_at time_str = Inl ScheduleValueError"

text \<open>
  The first run of a daily job, as the library computes it: one day after now, with the
  time of day replaced; one day earlier when the time of day is still ahead today.
\<close>

definition replace_time :: "datetime \<Rightarrow> timedelta \<Rightarrow> datetime" where
  "replace_time t tod = (t div days 1) * days 1 + tod"

definition daily_next_run :: "datetime \<Rightarrow> timedelta \<Rightarrow> datetime" where
  "daily_next_run now tod =
     (let next = replace_time (now + days 1) tod in
      if tod > now mod days 1 then next - days 1 else next)"

datatype unit_of_time = Days | Minutes

record job =
  unit :: unit_of_time
  at_time :: "timedelta option"
  next_run :: datetime

datatype thread = Alive | Finished

text \<open>
  The scheduler object with the library's registry: \<^verbatim>\<open>self.running\<close>,
  \<^verbatim>\<open>self.scheduler_thread\<close> (\<open>None\<close> before the first start) and the registered
  jobs.
\<close>

record scheduler =
  running :: bool
  scheduler_thread :: "thread option"
  jobs :: "job list"

definition init_scheduler :: scheduler where
  "init_scheduler = \<lparr>running = False, scheduler_thread = None, jobs = []\<rparr>"

definition schedule_daily_scraping :: "string \<Rightarrow> datetime \<Rightarrow> scheduler \<Rightarrow> exn + scheduler" where
  "schedule_daily_scraping time_str now s =
     (case parse_at time_str of
        Inl e \<Rightarrow> Inl e
      | Inr tod \<Rightarrow>
          Inr (s\<lparr>jobs := jobs s @
                 [\<lparr>unit = Days, at_time = Some tod, next_run = daily_next_run now tod\<rparr>]\<rparr>))"

definition schedule_immediate_test :: "datetime \<Rightarrow> scheduler \<Rightarrow> scheduler" where
  "schedule_immediate_test now s =
     s\<lparr>jobs := jobs s @ [\<lparr>unit = Minutes, at_time = None, next_run = now + seconds 60\<rparr>]\<rparr>"

text \<open>
  \<^verbatim>\<open>start_background_scheduler\<close>: nothing happens while the thread object is alive;
  otherwise the daily job is registered and a new thread is started.
\<close>

definition start_background_scheduler :: "string \<Rightarrow> datetime \<Rightarrow> scheduler \<Rightarrow> exn + scheduler" where
  "start_background_scheduler time_str now s =
     (if scheduler_thread s = Some Alive then Inr s
      else case schedule_daily_scraping time_str now s of
             Inl e \<Rightarrow> Inl e
           | Inr s' \<Rightarrow> Inr (s'\<lparr>scheduler_thread := Some Alive\<rparr>))"

text \<open>
  The thread runs \<^verbatim>\<open>run_scheduler\<close>: it first sets \<^verbatim>\<open>self.running = True\<close>, then
  tests \<^verbatim>\<open>while self.running\<close> before every iteration, sleeping 30 seconds in each;
  when the test fails the function returns and the thread is no longer alive.
\<close>

definition run_scheduler_begin :: "scheduler \<Rightarrow> scheduler" where
  "run_scheduler_begin s = s\<lparr>running := True\<rparr>"

definition run_scheduler_test :: "scheduler \<Rightarrow> scheduler" where
  "run_scheduler_test s =
     (if running s then s
      else if scheduler_thread s = Some Alive then s\<lparr>scheduler_thread := Some Finished\<rparr>
      else s)"

text \<open>\<^verbatim>\<open>stop_scheduler\<close>: the flag is cleared; the jobs are cleared when a thread object exists.\<close>

definition stop_scheduler :: "scheduler \<Rightarrow> scheduler" where
  "stop_scheduler s =
     (let s' = s\<lparr>running := False\<rparr> in
      if scheduler_thread s' \<noteq> None then s'\<lparr>jobs := []\<rparr> else s')"

definition get_next_run_time :: "scheduler \<Rightarrow> datetime option" where
  "get_next_run_time s =
     (case jobs s of
        [] \<Rightarrow> None
      | j # js \<Rightarrow> Some (fold (\<lambda>j' m. min (next_run j') m) js (next_run j)))"

record status =
  status_running :: bool
  status_next_run :: "datetime option"
  status_available_scrapers :: "string list"

text \<open>The module-level function \<^verbatim>\<open>get_scheduler_status\<close> of \<^verbatim>\<open>scheduler.py\<close>.\<close>

definition get_scheduler_status :: "scheduler \<Rightarrow> status" where
  "get_scheduler_status s =
     \<lparr>status_running = running s,
      status_next_run = get_next_run_time s,
      status_available_scrapers = map fst scraping_functions\<rparr>"

section \<open>main.py: responses and handlers\<close>

record response =
  success :: bool
  message :: string
  timestamp :: datetime

record data_response = response +
  total_records :: nat
  data :: "(string \<times> string option) list list"

record scheduler_status_response = response +
  scheduler_running :: bool
  next_run_time :: "datetime option"
  available_scrapers :: "string list"

record manual_scraping_response = response +
  started_at :: datetime

record single_scraper_response = manual_scraping_response +
  scraper :: string

text \<open>
  \<^verbatim>\<open>except Exception as e: raise HTTPException(status_code=500, detail=f"Internal
  server error: {str(e)}")\<close>, the handler that closes every endpoint.  \<^verbatim>\<open>HTTPException\<close>
  is itself an \<^verbatim>\<open>Exception\<close>, so one raised in the body is caught and wrapped as well.
\<close>

definition except_Exception :: "exn \<Rightarrow> exn" where
  "except_Exception e = HTTPException 500 (Internal_server_error e)"

text \<open>
  \<^verbatim>\<open>except HTTPException: raise\<close> before \<^verbatim>\<open>except Exception\<close>, as the
  single-scraper endpoint has it.
\<close>

definition except_HTTPException_raise :: "exn \<Rightarrow> exn" where
  "except_HTTPException_raise e =
     (case e of HTTPException code d \<Rightarrow> e | _ \<Rightarrow> except_Exception e)"

subsection \<open>The status endpoint\<close>

text \<open>
  \<^verbatim>\<open>main.py\<close> binds the name \<^verbatim>\<open>get_scheduler_status\<close> twice at module level:
  first by \<^verbatim>\<open>from scheduler import ... get_scheduler_status ...\<close>, later by
  \<^verbatim>\<open>async def get_scheduler_status()\<close>, the endpoint itself.  A name used inside a
  function body is looked up in the module's namespace when the body runs.
\<close>

datatype py_function =
    scheduler_get_scheduler_status
  | main_get_scheduler_status

definition main_globals :: "(string \<times> py_function) list" where
  "main_globals =
     dict_set (dict_set [] ''get_scheduler_status'' scheduler_get_scheduler_status)
       ''get_scheduler_status'' main_get_scheduler_status"

text \<open>
  Calling a plain function runs it; calling an \<^verbatim>\<open>async def\<close> function only makes a
  coroutine object.  Subscripting a coroutine object raises \<^verbatim>\<open>TypeError\<close>.
\<close>

datatype called = Dict status | Coroutine

definition call_function :: "py_function \<Rightarrow> scheduler \<Rightarrow> called" where
  "call_function f s =
     (case f of
        scheduler_get_scheduler_status \<Rightarrow> Dict (get_scheduler_status s)
      | main_get_scheduler_status \<Rightarrow> Coroutine)"

definition subscript :: "called \<Rightarrow> exn + status" where
  "subscript v = (case v of Dict d \<Rightarrow> Inr d | Coroutine \<Rightarrow> Inl TypeError)"

definition get_scheduler_status_endpoint :: "scheduler \<Rightarrow> datetime \<Rightarrow> exn + scheduler_status_response" where
  "get_scheduler_status_endpoint s now =
     (case map_of main_globals ''get_scheduler_status'' of
        None \<Rightarrow> Inl (except_Exception (Exception ''NameError''))
      | Some f \<Rightarrow>
          (case subscript (call_function f s) of
             Inl e \<Rightarrow> Inl (except_Exception e)
           | Inr st \<Rightarrow>
               Inr \<lparr>success = True,
                    message = ''Scheduler status retrieved successfully'',
                    timestamp = now,
                    scheduler_running = status_running st,
                    next_run_time = status_next_run st,
                    available_scrapers = status_available_scrapers st\<rparr>))"

subsection \<open>The single-scraper trigger\<close>

definition valid_scrapers :: "string list" where
  "valid_scrapers = [''TBM'', ''PF'', ''AM'', ''Organic'', ''Tanaman'']"

definition invalid_scraper_detail :: string where
  "invalid_scraper_detail =
     ''Invalid scraper name. Must be one of: ['TBM', 'PF', 'AM', 'Organic', 'Tanaman']''"

text \<open>
  \<^verbatim>\<open>run_single_scraper_endpoint\<close>: the name is checked first; only then a daemon
  thread is started, whose target calls \<^verbatim>\<open>scraping_scheduler.run_single_scraper\<close>.
\<close>

definition run_single_scraper_endpoint :: "string \<Rightarrow> world \<Rightarrow> (exn + single_scraper_response) \<times> world" where
  "run_single_scraper_endpoint scraper_name w =
     (if scraper_name \<notin> set valid_scrapers
      then (Inl (except_HTTPException_raise (HTTPException 400 (Detail invalid_scraper_detail))), w)
      else (let start_time = clock w;
                w' = w\<lparr>trace := trace w @ [Thread_start scraper_name]\<rparr>
            in (Inr \<lparr>success = True,
                     message = ''Manual scraping of '' @ scraper_name
                               @ '' data source has been started in background'',
                     timestamp = clock w',
                     started_at = start_time,
                     scraper = scraper_name\<rparr>, w')))"

section \<open>main.py: the read endpoints\<close>

text \<open>
  The five read endpoints differ in the file pattern, the extraction function, the record
  model and a word in their messages; their bodies are otherwise the same text.
\<close>

datatype source = TBM | PF | AM | Organic | Tanaman

definition glob_pattern :: "source \<Rightarrow> string" where
  "glob_pattern src =
     (case src of
        TBM \<Rightarrow> ''mygap_data_tbm*.json''
      | PF \<Rightarrow> ''mygap_data_pf*.json''
      | AM \<Rightarrow> ''mygap_data_am_*.json''
      | Organic \<Rightarrow> ''mygap_data_organic_*.json''
      | Tanaman \<Rightarrow> ''mygap_data_tanaman_*.json'')"

definition scraper_of :: "source \<Rightarrow> scraper" where
  "scraper_of src =
     (case src of
        TBM \<Rightarrow> extract_mygap_tbm_data
      | PF \<Rightarrow> extract_mygap_pf_data
      | AM \<Rightarrow> extract_mygap_am_data
      | Organic \<Rightarrow> extract_mygap_organic_data
      | Tanaman \<Rightarrow> extract_mygap_tanaman_data)"

text \<open>
  \<^verbatim>\<open>TBMRecord.model_fields\<close> and its four siblings: the declared fields, in order.
  \<^verbatim>\<open>AMRecord\<close> alone declares \<^verbatim>\<open>bil_haif\<close>.
\<close>

definition model_fields :: "source \<Rightarrow> string list" where
  "model_fields src =
     [''no_pensijilan'', ''kategori_pemohon'', ''nama'', ''negeri'', ''daerah'',
      ''jenis_tanaman'', ''kategori_komoditi'', ''kategori_tanaman'']
     @ (if src = AM then [''bil_haif''] else [])
     @ [''luas_ladang'', ''tahun_pensijilan'', ''tarikh_pensijilan'', ''tempoh_sah_laku'']"

text \<open>The word the messages of an endpoint put before \<^verbatim>\<open>data\<close> and \<^verbatim>\<open>certification\<close>.\<close>

definition label :: "source \<Rightarrow> string" where
  "label src =
     (case src of
        TBM \<Rightarrow> []
      | PF \<Rightarrow> []
      | AM \<Rightarrow> ''AM ''
      | Organic \<Rightarrow> ''Organic ''
      | Tanaman \<Rightarrow> ''Tanaman '')"

definition failed_detail :: "source \<Rightarrow> string" where
  "failed_detail src =
     ''Failed to extract '' @ label src
     @ ''data from MyGAP website. The website might be unavailable.''"

definition loaded_message :: "source \<Rightarrow> nat \<Rightarrow> string \<Rightarrow> string" where
  "loaded_message src n data_source =
     ''Successfully loaded '' @ show_nat n @ '' MyGAP '' @ label src
     @ ''certification records from '' @ data_source"

subsection \<open>The cache files\<close>

text \<open>
  A file of the working directory: its name, its modification time, and what
  \<^verbatim>\<open>open\<close> followed by \<^verbatim>\<open>json.load\<close> gives for it (\<open>None\<close> when either raises).
  The directory is the list of its files in the order \<^verbatim>\<open>glob.glob\<close> lists them.
\<close>

record json_file =
  fname :: string
  mtime :: datetime
  content :: "pyval option"

text \<open>Matching a name against a pattern whose only special character is the star.\<close>

fun glob_match :: "string \<Rightarrow> string \<Rightarrow> bool" where
  "glob_match [] [] = True"
| "glob_match [] (c # s) = False"
| "glob_match (p # ps) [] = (p = CHR ''*'' \<and> glob_match ps [])"
| "glob_match (p # ps) (c # s) =
     (if p = CHR ''*'' then glob_match ps (c # s) \<or> glob_match (p # ps) s
      else p = c \<and> glob_match ps s)"

definition glob :: "string \<Rightarrow> json_file list \<Rightarrow> json_file list" where
  "glob pat files = filter (\<lambda>f. glob_match pat (fname f)) files"

text \<open>
  \<^verbatim>\<open>max(json_files, key=os.path.getmtime)\<close>: the first file among those with the
  greatest modification time.
\<close>

fun max_by_mtime :: "json_file \<Rightarrow> json_file list \<Rightarrow> json_file" where
  "max_by_mtime best [] = best"
| "max_by_mtime best (f # fs) = max_by_mtime (if mtime f > mtime best then f else best) fs"

definition latest_file :: "source \<Rightarrow> json_file list \<Rightarrow> json_file option" where
  "latest_file src files =
     (case glob (glob_pattern src) files of
        [] \<Rightarrow> None
      | f # fs \<Rightarrow> Some (max_by_mtime f fs))"

text \<open>Truth value of a Python value, and whether \<^verbatim>\<open>len\<close> accepts it.\<close>

fun truthy :: "pyval \<Rightarrow> bool" where
  "truthy PNone = False"
| "truthy (PBool b) = b"
| "truthy (PInt i) = (i \<noteq> 0)"
| "truthy (PFloat x) = (x \<noteq> 0)"
| "truthy (PStr s) = (s \<noteq> [])"
| "truthy (PList xs) = (xs \<noteq> [])"
| "truthy (PDict kvs) = (kvs \<noteq> [])"

fun has_len :: "pyval \<Rightarrow> bool" where
  "has_len (PStr s) = True"
| "has_len (PList xs) = True"
| "has_len (PDict kvs) = True"
| "has_len v = False"

text \<open>
  The inner \<^verbatim>\<open>try\<close> of an endpoint: load the file, take the list itself, or the
  value under \<^verbatim>\<open>data\<close> of a dictionary that has the key, or else the value as it is;
  then log \<^verbatim>\<open>len(raw_data) if raw_data else 0\<close>.  Any exception, also the
  \<^verbatim>\<open>TypeError\<close> of \<^verbatim>\<open>len\<close> on a true value without a length, sets
  \<^verbatim>\<open>raw_data = None\<close>.
\<close>

definition select_data :: "pyval \<Rightarrow> pyval" where
  "select_data file_data =
     (case file_data of
        PList xs \<Rightarrow> file_data
      | PDict kvs \<Rightarrow> (case map_of kvs ''data'' of Some d \<Rightarrow> d | None \<Rightarrow> file_data)
      | _ \<Rightarrow> file_data)"

definition load_file :: "json_file \<Rightarrow> pyval" where
  "load_file f =
     (case content f of
        None \<Rightarrow> PNone
      | Some file_data \<Rightarrow>
          (let raw_data = select_data file_data in
           if truthy raw_data \<and> \<not> has_len raw_data then PNone else raw_data))"


text \<open>The cache part of an endpoint: \<^verbatim>\<open>raw_data\<close> before the test \<^verbatim>\<open>raw_data is None\<close>.\<close>

definition read_cache :: "source \<Rightarrow> json_file list \<Rightarrow> datetime \<Rightarrow> pyval" where
  "read_cache src files now =
     (case latest_file src files of
        None \<Rightarrow> PNone
      | Some latest \<Rightarrow>
          (let file_age = now - mtime latest in
           if file_age < days 1 then load_file latest else PNone))"

subsection \<open>From raw data to records\<close>

text \<open>
  \<^verbatim>\<open>for item in raw_data\<close>: a list gives its elements, a dictionary its keys, a string
  its characters; other values are not iterable.
\<close>

definition py_iter :: "pyval \<Rightarrow> exn + pyval list" where
  "py_iter v =
     (case v of
        PList xs \<Rightarrow> Inr xs
      | PDict kvs \<Rightarrow> Inr (map (\<lambda>(k, x). PStr k) kvs)
      | PStr s \<Rightarrow> Inr (map (\<lambda>c. PStr [c]) s)
      | _ \<Rightarrow> Inl TypeError)"

text \<open>\<^verbatim>\<open>item.items()\<close>: only a dictionary has the method.\<close>

definition items :: "pyval \<Rightarrow> exn + (string \<times> pyval) list" where
  "items item = (case item of PDict kvs \<Rightarrow> Inr kvs | _ \<Rightarrow> Inl AttributeError)"

text \<open>\<^verbatim>\<open>{k: v for k, v in item.items() if k in TBMRecord.model_fields}\<close>\<close>

definition cleaned_item :: "string list \<Rightarrow> (string \<times> pyval) list \<Rightarrow> (string \<times> pyval) list" where
  "cleaned_item flds kvs = filter (\<lambda>(k, v). k \<in> set flds) kvs"

text \<open>
  \<^verbatim>\<open>TBMRecord(**cleaned_item)\<close>: every declared field is \<^verbatim>\<open>Optional[str] = None\<close>.
  A field without a keyword gets \<open>None\<close>; a keyword must be \<^verbatim>\<open>None\<close> or a string,
  otherwise the validation fails.  The instance is the list of its fields with their
  values, in the declared order.
\<close>

fun construct :: "string list \<Rightarrow> (string \<times> pyval) list \<Rightarrow> exn + (string \<times> string option) list" where
  "construct [] kwargs = Inr []"
| "construct (f # fs) kwargs =
     (case (case map_of kwargs f of
              None \<Rightarrow> Inr None
            | Some PNone \<Rightarrow> Inr None
            | Some (PStr s) \<Rightarrow> Inr (Some s)
            | Some v \<Rightarrow> Inl ValidationError) of
        Inl e \<Rightarrow> Inl e
      | Inr x \<Rightarrow> (case construct fs kwargs of Inl e \<Rightarrow> Inl e | Inr r \<Rightarrow> Inr ((f, x) # r)))"


definition make_record :: "string list \<Rightarrow> pyval \<Rightarrow> exn + (string \<times> string option) list" where
  "make_record flds item =
     (case items item of
        Inl e \<Rightarrow> Inl e
      | Inr kvs \<Rightarrow> construct flds (cleaned_item flds kvs))"

text \<open>The conversion loop: the first exception ends it.\<close>

fun convert_loop :: "string list \<Rightarrow> pyval list \<Rightarrow> exn + (string \<times> string option) list list" where
  "convert_loop flds [] = Inr []"
| "convert_loop flds (item # rest) =
     (case make_record flds item of
        Inl e \<Rightarrow> Inl e
      | Inr r \<Rightarrow> (case convert_loop flds rest of Inl e \<Rightarrow> Inl e | Inr rs \<Rightarrow> Inr (r # rs)))"

definition convert_records :: "string list \<Rightarrow> pyval \<Rightarrow> exn + (string \<times> string option) list list" where
  "convert_records flds raw_data =
     (case py_iter raw_data of
        Inl e \<Rightarrow> Inl e
      | Inr its \<Rightarrow> convert_loop flds its)"

subsection \<open>The endpoint\<close>

text \<open>
  \<^verbatim>\<open>if raw_data is None\<close>: call the extraction function with
  \<^verbatim>\<open>save_to_file=True\<close>; a returned \<^verbatim>\<open>None\<close> raises the 500 error inside the
  outer \<^verbatim>\<open>try\<close>.  The result is \<^verbatim>\<open>raw_data\<close> with \<^verbatim>\<open>data_source\<close>.
\<close>

definition fetch_if_none :: "source \<Rightarrow> env \<Rightarrow> pyval \<Rightarrow> world \<Rightarrow> (exn + pyval \<times> string) \<times> world" where
  "fetch_if_none src E raw_data w =
     (if raw_data = PNone then
        (case call_scraper E (scraper_of src) True w of
           (Inl e, w') \<Rightarrow> (Inl e, w')
         | (Inr fetched, w') \<Rightarrow>
             (if fetched = PNone then (Inl (HTTPException 500 (Detail (failed_detail src))), w')
              else (Inr (fetched, ''fresh''), w')))
      else (Inr (raw_data, ''cache''), w))"

definition read_endpoint :: "source \<Rightarrow> env \<Rightarrow> json_file list \<Rightarrow> world \<Rightarrow> (exn + data_response) \<times> world" where
  "read_endpoint src E files w =
     (case fetch_if_none src E (read_cache src files (clock w)) w of
        (Inl e, w') \<Rightarrow> (Inl (except_Exception e), w')
      | (Inr (raw_data, data_source), w') \<Rightarrow>
          (case convert_records (model_fields src) raw_data of
             Inl e \<Rightarrow> (Inl (except_Exception e), w')
           | Inr records \<Rightarrow>
               (Inr \<lparr>success = True,
                     message = loaded_message src (length records) data_source,
                     timestamp = clock w',
                     total_records = length records,
                     data = records\<rparr>, w')))"



definition get_mygap_am_data :: "env \<Rightarrow> json_file list \<Rightarrow> world \<Rightarrow> (exn + data_response) \<times> world" where
  "get_mygap_am_data = read_endpoint AM"

definition get_mygap_organic_data :: "env \<Rightarrow> json_file list \<Rightarrow> world \<Rightarrow> (exn + data_response) \<times> world" where
  "get_mygap_organic_data = read_endpoint Organic"

definition get_mygap_tanaman_data :: "env \<Rightarrow> json_file list \<Rightarrow> world \<Rightarrow> (exn + data_response) \<times> world" where
  "get_mygap_tanaman_data = read_endpoint Tanaman"

section \<open>The write of a snapshot\<close>







section \<open>Concrete inputs\<close>

text \<open>An environment in which every extraction returns the same value after three seconds.\<close>

definition env_returning :: "pyval \<Rightarrow> env" where
  "env_returning v f = \<lparr>returned = Inr v, took = seconds 3\<rparr>"

text \<open>An environment in which the AM extraction raises and the Organic one returns \<^verbatim>\<open>None\<close>.\<close>

definition env_two_failures :: env where
  "env_two_failures f =
     (if f = extract_mygap_am_data then \<lparr>returned = Inl (Exception ''timeout''), took = seconds 30\<rparr>
      else if f = extract_mygap_organic_data then \<lparr>returned = Inr PNone, took = seconds 1\<rparr>
      else \<lparr>returned = Inr (PList []), took = seconds 3\<rparr>)"

definition world0 :: world where
  "world0 = \<lparr>clock = 0, trace = []\<rparr>"

definition one_record :: pyval where
  "one_record = PDict [(''no_pensijilan'', PStr ''TBM-1''), (''nama'', PStr ''Kebun A''), (''projek'', PStr ''x'')]"


definition am_file :: "datetime \<Rightarrow> pyval option \<Rightarrow> json_file" where
  "am_file t c = \<lparr>fname = ''mygap_data_am_20240101_000000.json'', mtime = t, content = c\<rparr>"


definition hours :: "int \<Rightarrow> timedelta" where
  "hours n = n * 3600000000"

section \<open>Properties of the batch run\<close>

lemma run_scraping_job_eq:
  "run_scraping_job E n f w =
     (succeeded (E f), w\<lparr>clock := clock w + took (E f), trace := trace w @ [Call f True]\<rparr>)"
  by (simp add: run_scraping_job_def call_scraper_def succeeded_def split: sum.splits)

lemma run_all_loop_step:
  "run_all_loop E ((n, f) # rest) res w =
     run_all_loop E rest (dict_set res n (succeeded (E f)))
       (w\<lparr>clock := clock w + took (E f) + seconds 2,
          trace := trace w @ [Call f True, Sleep (seconds 2)]\<rparr>)"
  by (simp add: run_scraping_job_eq sleep_def)

lemma run_all_loop_registry:
  "run_all_loop E scraping_functions [] w =
     ([(''TBM'', succeeded (E extract_mygap_tbm_data)),
       (''PF'', succeeded (E extract_mygap_pf_data)),
       (''AM'', succeeded (E extract_mygap_am_data)),
       (''Organic'', succeeded (E extract_mygap_organic_data)),
       (''Tanaman'', succeeded (E extract_mygap_tanaman_data))],
      w\<lparr>clock := clock w
             + took (E extract_mygap_tbm_data) + seconds 2
             + took (E extract_mygap_pf_data) + seconds 2
             + took (E extract_mygap_am_data) + seconds 2
             + took (E extract_mygap_organic_data) + seconds 2
             + took (E extract_mygap_tanaman_data) + seconds 2,
         trace := trace w @
           [Call extract_mygap_tbm_data True, Sleep (seconds 2),
            Call extract_mygap_pf_data True, Sleep (seconds 2),
            Call extract_mygap_am_data True, Sleep (seconds 2),
            Call extract_mygap_organic_data True, Sleep (seconds 2),
            Call extract_mygap_tanaman_data True, Sleep (seconds 2)]\<rparr>)"
  unfolding scraping_functions_def run_all_loop_step
  by simp



lemma run_all_scrapers_total_duration:
  "total_duration (fst (run_all_scrapers E w))
     = sum_list (map (\<lambda>(name, f). took (E f)) scraping_functions) + 5 * seconds 2"
  unfolding run_all_scrapers_def Let_def run_all_loop_registry
  by (simp add: scraping_functions_def)

text \<open>
  C6.  The batch sleeps two seconds after every source, the last one included, before it
  takes the end time: with five extractions of three seconds each the total duration is
  15 + 5 * 2 = 25 seconds, not 15 + 4 * 2 = 23, and the last thing the batch does is
  sleep.
\<close>

theorem run_all_scrapers_sleeps_five_times:
  "total_duration (fst (run_all_scrapers (env_returning (PList [])) world0)) = seconds 25
   \<and> trace (snd (run_all_scrapers (env_returning (PList [])) world0))
     = [Call extract_mygap_tbm_data True, Sleep (seconds 2),
        Call extract_mygap_pf_data True, Sleep (seconds 2),
        Call extract_mygap_am_data True, Sleep (seconds 2),
        Call extract_mygap_organic_data True, Sleep (seconds 2),
        Call extract_mygap_tanaman_data True, Sleep (seconds 2)]"
  unfolding run_all_scrapers_def Let_def run_all_loop_registry
  by (simp add: env_returning_def world0_def seconds_def)

section \<open>Properties of the single-scraper trigger\<close>

lemma valid_scrapers_registry: "valid_scrapers = map fst scraping_functions"
  by (simp add: valid_scrapers_def scraping_functions_def)

lemma run_single_scraper_unknown:
  assumes "scraper_name \<notin> set valid_scrapers"
  shows "run_single_scraper E scraper_name w = (False, w)"
proof -
  from assms have "scraper_name \<notin> fst ` set scraping_functions"
    by (simp add: valid_scrapers_registry)
  then have "map_of scraping_functions scraper_name = None"
    by (simp add: map_of_eq_None_iff)
  then show ?thesis
    by (simp add: run_single_scraper_def)
qed

text \<open>
  C7.  A name outside the five registered names is answered by the single-scraper trigger
  with \<^verbatim>\<open>HTTPException\<close> 400: the world is left as it was, so no thread has been
  started and no extraction function called; the scheduler's own
  \<^verbatim>\<open>run_single_scraper\<close> returns \<open>False\<close> for such a name without calling anything
  either.
\<close>

theorem run_single_scraper_endpoint_rejects_unknown:
  assumes "scraper_name \<notin> set valid_scrapers"
  shows "run_single_scraper_endpoint scraper_name w
           = (Inl (HTTPException 400 (Detail invalid_scraper_detail)), w)
         \<and> run_single_scraper E scraper_name w = (False, w)"
  using assms run_single_scraper_unknown [OF assms]
  by (simp add: run_single_scraper_endpoint_def except_HTTPException_raise_def)

theorem run_single_scraper_endpoint_rejects_unknown_witness:
  "''tbm'' \<notin> set valid_scrapers
   \<and> run_single_scraper_endpoint ''tbm'' world0
       = (Inl (HTTPException 400 (Detail invalid_scraper_detail)), world0)
   \<and> run_single_scraper env_two_failures ''tbm'' world0 = (False, world0)"
proof -
  have h: "''tbm'' \<notin> set valid_scrapers"
    by (simp add: valid_scrapers_def)
  show ?thesis
    using h run_single_scraper_endpoint_rejects_unknown [OF h, of world0 env_two_failures]
    by simp
qed

section \<open>Properties of the status query\<close>

lemma get_scheduler_status_triple:
  "get_scheduler_status s =
     \<lparr>status_running = running s,
      status_next_run = get_next_run_time s,
      status_available_scrapers = [''TBM'', ''PF'', ''AM'', ''Organic'', ''Tanaman'']\<rparr>"
  by (simp add: get_scheduler_status_def scraping_functions_def)

text \<open>
  C4.  Inside the status endpoint of \<^verbatim>\<open>main.py\<close> the name
  \<^verbatim>\<open>get_scheduler_status\<close> is bound to the endpoint itself, not to the function
  imported from \<^verbatim>\<open>scheduler.py\<close>: the call makes a coroutine object, subscripting it
  raises \<^verbatim>\<open>TypeError\<close>, and every status query ends in \<^verbatim>\<open>HTTPException\<close> 500,
  whatever the state of the scheduler.
\<close>

theorem get_scheduler_status_endpoint_always_fails:
  "map_of main_globals ''get_scheduler_status'' = Some main_get_scheduler_status
   \<and> get_scheduler_status_endpoint s now
       = Inl (HTTPException 500 (Internal_server_error TypeError))"
  by (simp add: main_globals_def get_scheduler_status_endpoint_def call_function_def
      subscript_def except_Exception_def)

section \<open>Properties of the read endpoints\<close>

lemma read_cache_miss:
  assumes "case latest_file src files of None \<Rightarrow> True | Some f \<Rightarrow> days 1 \<le> now - mtime f"
  shows "read_cache src files now = PNone"
  using assms by (auto simp: read_cache_def Let_def split: option.splits)

lemma fetch_if_none_failure:
  assumes "\<not> succeeded (E (scraper_of src))"
  shows "fetch_if_none src E PNone w =
           (Inl (case returned (E (scraper_of src)) of
                   Inl e \<Rightarrow> e
                 | Inr v \<Rightarrow> HTTPException 500 (Detail (failed_detail src))),
            w\<lparr>clock := clock w + took (E (scraper_of src)),
               trace := trace w @ [Call (scraper_of src) True]\<rparr>)"
  using assms
  by (auto simp: fetch_if_none_def call_scraper_def succeeded_def split: sum.splits)

text \<open>
  C1.  For each of the five sources: when no file matches the source's pattern, or the
  newest matching file is at least one day old, and the extraction fails (it returns
  \<^verbatim>\<open>None\<close> or raises), the read endpoint calls the extraction once and ends in
  \<^verbatim>\<open>HTTPException\<close> 500; no response, and so no stale snapshot, is returned.
\<close>

theorem read_endpoint_fetch_failure:
  assumes "case latest_file src files of None \<Rightarrow> True | Some f \<Rightarrow> days 1 \<le> clock w - mtime f"
    and "\<not> succeeded (E (scraper_of src))"
  shows "read_endpoint src E files w =
           (Inl (HTTPException 500 (Internal_server_error
                   (case returned (E (scraper_of src)) of
                      Inl e \<Rightarrow> e
                    | Inr v \<Rightarrow> HTTPException 500 (Detail (failed_detail src))))),
            w\<lparr>clock := clock w + took (E (scraper_of src)),
               trace := trace w @ [Call (scraper_of src) True]\<rparr>)"
  using assms(2)
  by (simp add: read_endpoint_def read_cache_miss [OF assms(1)]
      fetch_if_none_failure [where E = E and src = src] except_Exception_def)

lemma latest_am_file: "latest_file AM [am_file t c] = Some (am_file t c)"
  by (simp add: latest_file_def glob_def glob_pattern_def am_file_def)

theorem read_endpoint_fetch_failure_witness:
  "get_mygap_am_data (env_returning PNone) [am_file 0 (Some (PList [one_record]))]
       \<lparr>clock = hours 30, trace = []\<rparr>
     = (Inl (HTTPException 500 (Internal_server_error
               (HTTPException 500 (Detail
                  ''Failed to extract AM data from MyGAP website. The website might be unavailable.'')))),
        \<lparr>clock = hours 30 + seconds 3, trace = [Call extract_mygap_am_data True]\<rparr>)"
proof -
  have stale: "case latest_file AM [am_file 0 (Some (PList [one_record]))] of
                 None \<Rightarrow> True
               | Some f \<Rightarrow> days 1 \<le> clock \<lparr>clock = hours 30, trace = []\<rparr> - mtime f"
    by (simp add: latest_am_file) (simp add: am_file_def days_def hours_def)
  have failed: "\<not> succeeded (env_returning PNone (scraper_of AM))"
    by (simp add: succeeded_def env_returning_def)
  show ?thesis
    using read_endpoint_fetch_failure [where src = AM and E = "env_returning PNone", OF stale failed]
    by (simp add: get_mygap_am_data_def env_returning_def scraper_of_def failed_detail_def label_def)
qed























section \<open>Properties of starting and stopping\<close>

lemma digit_le: "digit c = Some x \<Longrightarrow> x \<le> 9"
  by (auto simp: digit_def split: if_splits)

lemma two_digits_le: "two_digits a b m = Some n \<Longrightarrow> n \<le> 10 * m + 9"
  by (auto simp: two_digits_def split: option.splits if_splits dest!: digit_le)

lemma time_of_day_range:
  assumes "time_of_day hh mm ss = Inr tod"
    and "\<And>m. mm = Some m \<Longrightarrow> m \<le> 59"
    and "\<And>x. ss = Some x \<Longrightarrow> x \<le> 59"
  shows "0 \<le> tod \<and> tod < days 1"
proof -
  from assms(1) obtain h m x where parts: "hh = Some h" "mm = Some m" "ss = Some x"
    and h: "h \<le> 23" and tod: "tod = seconds (int (3600 * h + 60 * m + x))"
    by (auto simp: time_of_day_def split: option.splits if_splits)
  from parts assms(2,3) have "m \<le> 59" "x \<le> 59" by simp_all
  with h have "3600 * h + 60 * m + x < 86400" by linarith
  then show ?thesis
    by (simp add: tod seconds_def days_def)
qed

lemma parse_at_range:
  assumes "parse_at time_str = Inr tod"
  shows "0 \<le> tod \<and> tod < days 1"
  using assms
proof (cases time_str rule: parse_at.cases)
  case (1 h1 h2 c1 m1 m2)
  with assms have "time_of_day (two_digits h1 h2 2) (two_digits m1 m2 5) (Some 0) = Inr tod"
    by (simp split: if_splits)
  then show ?thesis
    by (rule time_of_day_range) (auto dest: two_digits_le)
next
  case (2 h1 h2 c1 m1 m2 c2 s1 s2)
  with assms have "time_of_day (two_digits h1 h2 2) (two_digits m1 m2 5) (two_digits s1 s2 5) = Inr tod"
    by (simp split: if_splits)
  then show ?thesis
    by (rule time_of_day_range) (auto dest: two_digits_le)
qed (use assms in simp_all)

lemma daily_next_run_future:
  assumes "0 \<le> tod" and "tod < days 1"
  shows "now < daily_next_run now tod
         \<and> daily_next_run now tod \<le> now + days 1
         \<and> daily_next_run now tod mod days 1 = tod"
proof -
  define D :: int where "D = 86400000000"
  have D: "days 1 = D" by (simp add: days_def D_def)
  have Dpos: "0 < D" by (simp add: D_def)
  define q r where "q = now div D" and "r = now mod D"
  have now: "now = q * D + r" by (simp add: q_def r_def)
  have r: "0 \<le> r" "r < D" using Dpos by (simp_all add: r_def)
  have next_day: "(now + D) div D = q + 1" using Dpos by (simp add: q_def)
  have "replace_time (now + days 1) tod = (q + 1) * D + tod"
    by (simp only: replace_time_def D next_day)
  then have next_run: "daily_next_run now tod = (if r < tod then q * D + tod else (q + 1) * D + tod)"
    by (simp add: daily_next_run_def Let_def D r_def algebra_simps)
  have m1: "(q * D + tod) mod D = tod" using assms D by simp
  have m2: "((q + 1) * D + tod) mod D = tod" using assms D by simp
  have "now < daily_next_run now tod" "daily_next_run now tod \<le> now + D"
    using r assms D unfolding next_run by (auto simp: now algebra_simps)
  moreover have "daily_next_run now tod mod D = tod"
    unfolding next_run using m1 m2 by simp
  ultimately show ?thesis by (simp add: D)
qed

lemma stopped_and_exited:
  assumes "scheduler_thread s \<noteq> None"
  shows "jobs (run_scheduler_test (stop_scheduler s)) = []
         \<and> scheduler_thread (run_scheduler_test (stop_scheduler s)) \<noteq> Some Alive"
  using assms by (auto simp: stop_scheduler_def run_scheduler_test_def Let_def)

text \<open>
  C5, as the code has it.  After \<^verbatim>\<open>stop_scheduler\<close> on a scheduler that had been
  started, once the background thread has made its next test of the flag and ended, a
  start with a valid time of day registers the daily job, and the next-run query gives a
  time that is strictly after the time of the start, at most one day after it, and at the
  configured time of day.
\<close>

theorem restart_after_thread_exit:
  assumes "parse_at time_str = Inr tod"
    and "scheduler_thread s \<noteq> None"
  shows "map_sum id get_next_run_time
           (start_background_scheduler time_str now (run_scheduler_test (stop_scheduler s)))
           = Inr (Some (daily_next_run now tod))
         \<and> now < daily_next_run now tod
         \<and> daily_next_run now tod \<le> now + days 1
         \<and> daily_next_run now tod mod days 1 = tod"
proof -
  from parse_at_range [OF assms(1)] have "0 \<le> tod" "tod < days 1" by simp_all
  then have future: "now < daily_next_run now tod
         \<and> daily_next_run now tod \<le> now + days 1
         \<and> daily_next_run now tod mod days 1 = tod"
    by (rule daily_next_run_future)
  from stopped_and_exited [OF assms(2)]
  have "map_sum id get_next_run_time
           (start_background_scheduler time_str now (run_scheduler_test (stop_scheduler s)))
           = Inr (Some (daily_next_run now tod))"
    by (simp del: parse_at.simps
        add: start_background_scheduler_def schedule_daily_scraping_def assms(1)
        get_next_run_time_def)
  with future show ?thesis by simp
qed

lemma parse_midnight: "parse_at ''00:00'' = Inr 0"
  by (simp add: time_of_day_def two_digits_def digit_def seconds_def)

theorem restart_after_thread_exit_witness:
  "map_sum id get_next_run_time
     (start_background_scheduler ''00:00'' (hours 30)
        (run_scheduler_test (stop_scheduler
           \<lparr>running = True, scheduler_thread = Some Alive,
            jobs = [\<lparr>unit = Days, at_time = Some 0, next_run = days 1\<rparr>]\<rparr>)))
     = Inr (Some (days 2))
   \<and> hours 30 < days 2"
proof -
  have started: "scheduler_thread \<lparr>running = True, scheduler_thread = Some Alive,
            jobs = [\<lparr>unit = Days, at_time = Some 0, next_run = days 1\<rparr>]\<rparr> \<noteq> None"
    by simp
  have "daily_next_run (hours 30) 0 = days 2"
    by (simp add: daily_next_run_def replace_time_def hours_def days_def)
  then show ?thesis
    using restart_after_thread_exit [OF parse_midnight started, of "hours 30"]
    by (simp del: parse_at.simps)
qed

text \<open>
  A start one second after the stop, while the thread has not yet made its next test of
  the flag (it makes one every 30 seconds), finds the thread alive and returns without
  registering a job: the next-run query gives nothing.
\<close>

theorem restart_while_thread_alive_counterexample:
  "start_background_scheduler ''00:00'' 0 init_scheduler
     = Inr \<lparr>running = False, scheduler_thread = Some Alive,
            jobs = [\<lparr>unit = Days, at_time = Some 0, next_run = days 1\<rparr>]\<rparr>
   \<and> start_background_scheduler ''00:00'' (seconds 1)
       (stop_scheduler (run_scheduler_begin
          \<lparr>running = False, scheduler_thread = Some Alive,
           jobs = [\<lparr>unit = Days, at_time = Some 0, next_run = days 1\<rparr>]\<rparr>))
     = Inr \<lparr>running = False, scheduler_thread = Some Alive, jobs = []\<rparr>
   \<and> get_next_run_time \<lparr>running = False, scheduler_thread = Some Alive, jobs = []\<rparr> = None"
  by (simp del: parse_at.simps
      add: start_background_scheduler_def schedule_daily_scraping_def parse_midnight
      init_scheduler_def daily_next_run_def replace_time_def days_def stop_scheduler_def
      run_scheduler_begin_def get_next_run_time_def)

section \<open>Two reads in a row\<close>












end
